theory Spec2Isabelle
  imports Complex_Main "HOL-Library.Sublist" "HOL-Library.Monad_Syntax"
begin

section \<open>The offline advisory service (services/geminiService.ts)\<close>

text \<open>
  A shallow embedding of \<^verbatim>\<open>services/geminiService.ts\<close>. A JavaScript string is
  modelled by the list of its code units; the model covers the strings whose code units
  are below 256, which is what \<^typ>\<open>char\<close> holds. Every string literal of the source
  is ASCII.
\<close>

subsection \<open>Strings: \<^verbatim>\<open>toLowerCase\<close> and \<^verbatim>\<open>includes\<close>\<close>

text \<open>
  \<^verbatim>\<open>String.prototype.toLowerCase\<close> maps code unit by code unit on this range: the
  letters A to Z (65 to 90) and the Latin-1 capitals (192 to 222, without the
  multiplication sign 215) move up by 32, every other code unit stays.
\<close>

definition lowerUnit :: "char \<Rightarrow> char" where
  "lowerUnit c =
     (let n = (of_char c :: nat)
      in if (65 \<le> n \<and> n \<le> 90) \<or> (192 \<le> n \<and> n \<le> 222 \<and> n \<noteq> 215)
         then char_of (n + 32) else c)"

definition toLowerCase :: "string \<Rightarrow> string" where
  "toLowerCase s = map lowerUnit s"

text \<open>\<^verbatim>\<open>s.includes(k)\<close>: \<open>k\<close> occurs in \<open>s\<close> as a contiguous run.\<close>

fun startsWith :: "string \<Rightarrow> string \<Rightarrow> bool" where
  "startsWith s [] = True"
| "startsWith [] (k # ks) = False"
| "startsWith (c # cs) (k # ks) = (c = k \<and> startsWith cs ks)"

fun str_includes :: "string \<Rightarrow> string \<Rightarrow> bool" where
  "str_includes [] k = (k = [])"
| "str_includes (c # cs) k = (startsWith (c # cs) k \<or> str_includes cs k)"

text \<open>\<^verbatim>\<open>s.endsWith(k)\<close>, used to state where a sentence carries its verdict.\<close>

definition endsWith :: "string \<Rightarrow> string \<Rightarrow> bool" where
  "endsWith s k = startsWith (rev s) (rev k)"

subsection \<open>Numbers\<close>

text \<open>
  A measurement (\<^verbatim>\<open>ph\<close>, \<^verbatim>\<open>turbidity\<close>) is any JavaScript number: not-a-number, an
  infinity, or a finite value, which is a rational and is compared exactly. Every
  comparison with \<^verbatim>\<open>NaN\<close> is false. The thresholds 6.5, 8.5 and 5 of the source are
  exactly representable, so comparing with them is comparing the values.
\<close>

datatype number = NaN | NegInfinity | Finite real | PosInfinity

fun num_le :: "number \<Rightarrow> number \<Rightarrow> bool" where
  "num_le NaN _ = False"
| "num_le _ NaN = False"
| "num_le NegInfinity _ = True"
| "num_le _ PosInfinity = True"
| "num_le (Finite x) (Finite y) = (x \<le> y)"
| "num_le (Finite x) NegInfinity = False"
| "num_le PosInfinity (Finite y) = False"
| "num_le PosInfinity NegInfinity = False"

fun num_lt :: "number \<Rightarrow> number \<Rightarrow> bool" where
  "num_lt NaN _ = False"
| "num_lt _ NaN = False"
| "num_lt (Finite x) (Finite y) = (x < y)"
| "num_lt NegInfinity NegInfinity = False"
| "num_lt NegInfinity _ = True"
| "num_lt PosInfinity _ = False"
| "num_lt (Finite x) PosInfinity = True"
| "num_lt (Finite x) NegInfinity = False"

definition num_ge :: "number \<Rightarrow> number \<Rightarrow> bool" where
  "num_ge a b = num_le b a"

text \<open>
  A count (\<^verbatim>\<open>totalAffected\<close>, \<^verbatim>\<open>affected\<close>) is an integer \<open>n\<close>; in a template it is
  printed as the number \<open>Finite (of_int n)\<close>.

  The rendering of a number in a template (\<^verbatim>\<open>Number::toString\<close>: the shortest decimal
  that reads back as the same double, with an exponent from \<open>10^21\<close>) is a function of
  the number that this development does not fix: it is the parameter \<open>fmt\<close> of every
  operation that prints a count or a measurement, and every property below holds for
  every \<open>fmt\<close>.
\<close>

text \<open>
  \<open>wholeNumber\<close> is one such function, for running the model on sample inputs. It
  agrees with \<^verbatim>\<open>Number::toString\<close> on the special values and on the whole numbers of
  magnitude at most \<open>2^53\<close>, which JavaScript prints with all their decimal digits and
  a minus sign below zero; on other finite values it is not the JavaScript rendering.
\<close>

fun digits :: "nat \<Rightarrow> string" where
  "digits n =
     (if n < 10 then [''0123456789'' ! n]
      else digits (n div 10) @ [''0123456789'' ! (n mod 10)])"

declare digits.simps [simp del]

definition decimalOfInt :: "int \<Rightarrow> string" where
  "decimalOfInt i = (if i < 0 then CHR ''-'' # digits (nat (- i)) else digits (nat i))"

definition wholeNumber :: "number \<Rightarrow> string" where
  "wholeNumber n =
     (case n of
        NaN \<Rightarrow> ''NaN''
      | NegInfinity \<Rightarrow> ''-Infinity''
      | PosInfinity \<Rightarrow> ''Infinity''
      | Finite x \<Rightarrow> decimalOfInt \<lfloor>x\<rfloor>)"

subsection \<open>The input records\<close>

text \<open>
  Modelled from the spec: the declarations of \<^verbatim>\<open>StateData\<close> and
  \<^verbatim>\<open>WaterQualityReport\<close> (\<^verbatim>\<open>../types\<close>) are not among the sources. The spec gives a
  state record a name, a total-affected count and an ordered list of disease entries,
  each with a name and an affected count; and a water quality record a site name, a
  site type, a pH and a turbidity. The fields below are the ones the service reads.
\<close>

record DiseaseEntry =
  disease_name :: string
  affected :: int

record StateData =
  name :: string
  totalAffected :: int
  diseases :: "DiseaseEntry list"

record WaterQualityReport =
  siteName :: string
  siteType :: string
  ph :: number
  turbidity :: number

record ContextData =
  states :: "StateData list"
  reports :: "WaterQualityReport list"

subsection \<open>\<^verbatim>\<open>Array.prototype.sort\<close> with a comparator\<close>

text \<open>
  \<^verbatim>\<open>xs.sort(cmp)\<close> is stable, and orders \<open>a\<close> before \<open>b\<close> when \<open>cmp a b < 0\<close>. An
  element is inserted in front of the first element it does not have to follow, so
  elements that compare equal keep their order.
\<close>

fun insertBy :: "('a \<Rightarrow> 'a \<Rightarrow> int) \<Rightarrow> 'a \<Rightarrow> 'a list \<Rightarrow> 'a list" where
  "insertBy cmp x [] = [x]"
| "insertBy cmp x (y # ys) =
     (if cmp x y \<le> 0 then x # y # ys else y # insertBy cmp x ys)"

fun sortBy :: "('a \<Rightarrow> 'a \<Rightarrow> int) \<Rightarrow> 'a list \<Rightarrow> 'a list" where
  "sortBy cmp [] = []"
| "sortBy cmp (x # xs) = insertBy cmp x (sortBy cmp xs)"

subsection \<open>The summaries\<close>

text \<open>The comparator of line 11: \<^verbatim>\<open>(a, b) => b.totalAffected - a.totalAffected\<close>.\<close>

definition byBurden :: "StateData \<Rightarrow> StateData \<Rightarrow> int" where
  "byBurden a b = totalAffected b - totalAffected a"

text \<open>The template of line 12.\<close>

definition burdenSentence :: "(number \<Rightarrow> string) \<Rightarrow> StateData \<Rightarrow> string" where
  "burdenSentence fmt topState =
     name topState @ '' currently has the highest reported disease burden with ''
       @ fmt (Finite (of_int (totalAffected topState))) @ '' affected cases.''"

text \<open>
  \<^verbatim>\<open>[...states].sort(cmp)[0]\<close> is read only when \<^verbatim>\<open>states\<close> is not empty, and
  sorting keeps the length (\<open>length_sortBy\<close> below), so the read is in range.
\<close>

definition getTopStateSummary :: "(number \<Rightarrow> string) \<Rightarrow> StateData list \<Rightarrow> string" where
  "getTopStateSummary fmt sts =
     (if length sts = 0 then ''No state disease data is available yet.''
      else (let topState = hd (sortBy byBurden sts) in burdenSentence fmt topState))"

text \<open>Lines 18 to 21: the verdict on the latest report and the sentence about it.\<close>

definition waterSentence :: "(number \<Rightarrow> string) \<Rightarrow> WaterQualityReport \<Rightarrow> string" where
  "waterSentence fmt latest =
     (let safePh = (num_ge (ph latest) (Finite 6.5) \<and> num_le (ph latest) (Finite 8.5));
          safeTurbidity = num_lt (turbidity latest) (Finite 5);
          verdict = (if safePh \<and> safeTurbidity then ''within safe range''
                     else ''needs attention'')
      in ''Latest site '' @ siteName latest @ '' ('' @ siteType latest @ '') shows pH ''
           @ fmt (ph latest) @ '' and turbidity '' @ fmt (turbidity latest)
           @ '' NTU, which '' @ verdict @ ''.'')"

definition getRecentWaterSummary :: "(number \<Rightarrow> string) \<Rightarrow> WaterQualityReport list \<Rightarrow> string" where
  "getRecentWaterSummary fmt rs =
     (if length rs = 0 then ''No recent water quality reports are available.''
      else (let latest = rs ! (length rs - 1) in waterSentence fmt latest))"

text \<open>The conjunction \<^verbatim>\<open>safePh && safeTurbidity\<close> of line 20.\<close>

definition safeReading :: "WaterQualityReport \<Rightarrow> bool" where
  "safeReading r \<longleftrightarrow>
     num_ge (ph r) (Finite 6.5) \<and> num_le (ph r) (Finite 8.5) \<and> num_lt (turbidity r) (Finite 5)"

subsection \<open>The offline reply\<close>

definition getOfflineAssistantReply ::
    "(number \<Rightarrow> string) \<Rightarrow> string \<Rightarrow> ContextData \<Rightarrow> string" where
  "getOfflineAssistantReply fmt userQuery contextData =
     (let q = toLowerCase userQuery
      in if str_includes q ''ph'' \<or> str_includes q ''safe range''
         then ''The safe pH range for drinking water is 6.5 to 8.5.''
         else if str_includes q ''state'' \<or> str_includes q ''disease'' \<or> str_includes q ''cases''
         then getTopStateSummary fmt (states contextData) @ '' ''
                @ getRecentWaterSummary fmt (reports contextData)
         else if str_includes q ''water'' \<or> str_includes q ''quality''
                   \<or> str_includes q ''turbidity''
         then getRecentWaterSummary fmt (reports contextData)
         else ''I am running in offline mode without external AI APIs. ''
                @ getTopStateSummary fmt (states contextData) @ '' ''
                @ getRecentWaterSummary fmt (reports contextData))"

subsection \<open>The exported operations\<close>

text \<open>
  An \<^verbatim>\<open>async\<close> function returns a promise, which settles as fulfilled with a value or
  as rejected with an error.
\<close>

datatype 'a Promise = Fulfilled 'a | Rejected string

text \<open>
  \<^verbatim>\<open>a || b\<close> yields \<open>b\<close> when \<open>a\<close> is falsy: \<^verbatim>\<open>undefined\<close> (here \<open>None\<close>), the
  empty string, or the number zero.
\<close>

definition orString :: "string option \<Rightarrow> string \<Rightarrow> string" where
  "orString a b = (case a of None \<Rightarrow> b | Some s \<Rightarrow> if s = [] then b else s)"

definition orCount :: "int option \<Rightarrow> int \<Rightarrow> int" where
  "orCount a b = (case a of None \<Rightarrow> b | Some n \<Rightarrow> if n = 0 then b else n)"

text \<open>\<^verbatim>\<open>xs[0]\<close>, which is \<^verbatim>\<open>undefined\<close> on the empty array.\<close>

definition firstEntry :: "'a list \<Rightarrow> 'a option" where
  "firstEntry xs = (case xs of [] \<Rightarrow> None | x # _ \<Rightarrow> Some x)"

text \<open>The template of line 47; \<^verbatim>\<open>\n\<close> is the code unit 10.\<close>

definition healthReportText ::
    "(number \<Rightarrow> string) \<Rightarrow> string \<Rightarrow> int \<Rightarrow> string \<Rightarrow> int \<Rightarrow> string" where
  "healthReportText fmt stateName totalCount concern cases =
     ''Offline analysis for '' @ stateName @ '': total affected ''
       @ fmt (Finite (of_int totalCount))
       @ ''. Top concern is '' @ concern @ '' with '' @ fmt (Finite (of_int cases))
       @ '' reported cases.'' @ [CHR 0x0A, CHR 0x0A]
       @ ''RECOMMENDATION: Prioritize chlorination checks and ORS stock in high-burden districts this week.''"

definition generateHealthReport :: "(number \<Rightarrow> string) \<Rightarrow> StateData \<Rightarrow> string Promise" where
  "generateHealthReport fmt stateData =
     (let topDisease = firstEntry (diseases stateData)
      in Fulfilled
           (healthReportText fmt (name stateData) (totalAffected stateData)
              (orString (map_option disease_name topDisease) ''water-borne disease'')
              (orCount (map_option affected topDisease) 0)))"

definition suggestPreventiveMeasures :: "string \<Rightarrow> string list Promise" where
  "suggestPreventiveMeasures diseaseName =
     (let defaults = [''Drink boiled or filtered water'',
                      ''Wash hands with soap before meals'',
                      ''Avoid uncovered street food''];
          disease = toLowerCase diseaseName
      in if str_includes disease ''cholera''
         then Fulfilled [''Use chlorinated drinking water'',
                         ''Wash fruits and utensils with clean water'',
                         ''Use ORS and seek care immediately for severe diarrhea'']
         else if str_includes disease ''typhoid''
         then Fulfilled [''Drink safe water only'',
                         ''Avoid raw cut fruits from unknown vendors'',
                         ''Complete prescribed antibiotics from a doctor'']
         else Fulfilled defaults)"

text \<open>
  \<^verbatim>\<open>JalAssistantResponse\<close>: the field \<^verbatim>\<open>text\<close> is \<open>reply_text\<close> here; an optional
  field that is absent is \<open>None\<close>.
\<close>

record JalAssistantResponse =
  reply_text :: string
  audioBase64 :: "string option"
  audioMimeType :: "string option"

definition askJalAssistantWithVoice ::
    "(number \<Rightarrow> string) \<Rightarrow> string \<Rightarrow> ContextData \<Rightarrow> string \<Rightarrow> JalAssistantResponse Promise" where
  "askJalAssistantWithVoice fmt userQuery contextData languageCode =
     Fulfilled \<lparr> reply_text = getOfflineAssistantReply fmt userQuery contextData,
                 audioBase64 = None, audioMimeType = None \<rparr>"

text \<open>\<^verbatim>\<open>await\<close> passes a rejection on to the caller.\<close>

definition askJalAssistant ::
    "(number \<Rightarrow> string) \<Rightarrow> string \<Rightarrow> ContextData \<Rightarrow> string \<Rightarrow> string Promise" where
  "askJalAssistant fmt userQuery contextData languageCode =
     (case askJalAssistantWithVoice fmt userQuery contextData languageCode of
        Fulfilled result \<Rightarrow> Fulfilled (reply_text result)
      | Rejected e \<Rightarrow> Rejected e)"

subsection \<open>Double arithmetic\<close>

text \<open>
  \<^verbatim>\<open>Math.random() * 40\<close> is a product of doubles: the exact product rounded to the
  nearest double, ties to the even significand. A finite double is here the real number
  it stands for. \<open>binade x\<close> is the exponent \<open>e\<close> with \<open>2^e \<le> x < 2^(e+1)\<close>, never
  below the least exponent \<open>-1022\<close> (it is searched downwards from the greatest, 1023);
  the doubles of that binade are the multiples of \<open>2^(e-52)\<close>. \<open>round64\<close> is the
  rounding for magnitudes below \<open>2^1024\<close>, where it yields no infinity; the products
  of this file are below 64. A number of such magnitude is a double when rounding
  leaves it as it is.
\<close>

fun binadeBelow :: "nat \<Rightarrow> real \<Rightarrow> int" where
  "binadeBelow 0 x = - 1022"
| "binadeBelow (Suc k) x =
     (if 2 powi (int (Suc k) - 1022) \<le> x then int (Suc k) - 1022 else binadeBelow k x)"

definition binade :: "real \<Rightarrow> int" where
  "binade x = binadeBelow 2045 x"

definition roundHalfEven :: "real \<Rightarrow> int" where
  "roundHalfEven y =
     (let f = \<lfloor>y\<rfloor>; d = y - of_int f
      in if d < 1 / 2 then f else if 1 / 2 < d then f + 1 else if even f then f else f + 1)"

definition round64 :: "real \<Rightarrow> real" where
  "round64 x =
     (if x = 0 then 0
      else (let a = \<bar>x\<bar>; q = 2 powi (binade a - 52)
            in sgn x * (q * of_int (roundHalfEven (a / q)))))"

definition isDouble :: "real \<Rightarrow> bool" where
  "isDouble x \<longleftrightarrow> \<bar>x\<bar> < 2 ^ 1024 \<and> round64 x = x"

subsection \<open>The simulated report\<close>

record KeyMetric =
  metric_name :: string
  metric_value :: string
  metric_unit :: string
  metric_status :: string

record Coordinates =
  lat :: real
  lng :: real

record AdvancedReport =
  title :: string
  overall_status :: string
  score :: int
  verdict :: string
  summary :: string
  key_metrics :: "KeyMetric list"
  alerts :: "string list"
  recommendations :: "string list"
  coordinates :: Coordinates
  is_simulated :: bool

text \<open>
  \<^verbatim>\<open>getMockAdvancedReport\<close> takes any object with a \<^verbatim>\<open>city\<close>;
  \<^verbatim>\<open>getAdvancedReport\<close> passes one that also has \<^verbatim>\<open>state\<close>, \<^verbatim>\<open>date\<close> and an
  optional \<^verbatim>\<open>time\<close>.
\<close>

record CityLocation =
  city :: string

record Location = CityLocation +
  state :: string
  date :: string
  time :: "string option"

text \<open>
  The one random draw, \<^verbatim>\<open>Math.random()\<close>, is the argument \<open>rnd\<close>: a double with
  \<open>0 \<le> rnd\<close> and \<open>rnd < 1\<close>. Its product with 40 is rounded to a double before
  \<^verbatim>\<open>Math.floor\<close>. The first assignment to \<^verbatim>\<open>verdict\<close> (line 88) is overwritten on
  every path.
\<close>

definition getMockAdvancedReport ::
    "real \<Rightarrow> string \<Rightarrow> 'a CityLocation_scheme \<Rightarrow> AdvancedReport" where
  "getMockAdvancedReport rnd reportType location =
     (let isWater = (str_includes (toLowerCase reportType) ''water''
                      \<or> str_includes (toLowerCase reportType) ''groundwater'');
          isDisease = (str_includes (toLowerCase reportType) ''disease''
                        \<or> str_includes (toLowerCase reportType) ''hospital'');
          scoreDrawn = \<lfloor>round64 (rnd * 40)\<rfloor> + 50;
          isSafe = (scoreDrawn > 75);
          verdictChosen =
            (if isWater then (if isSafe then ''Safe for Consumption'' else ''Requires Filtration'')
             else if isDisease then (if isSafe then ''Low Health Risk'' else ''Elevated Viral Risk'')
             else (if isSafe then ''Stable Conditions'' else ''Caution Advised''))
      in \<lparr> title = reportType @ '' - Simulated Analysis'',
           overall_status = (if isSafe then ''Safe'' else ''Caution''),
           score = scoreDrawn,
           verdict = verdictChosen,
           summary =
             ''This is a simulated report for '' @ city location
               @ '' because the AI service is currently unreachable (likely Free Tier rate limit). Data suggests ''
               @ (if isWater
                  then (if isSafe then ''water parameters are within acceptable limits.''
                        else ''turbidity levels are slightly high, boiling advised.'')
                  else if isDisease then ''seasonal variations in local health data.''
                  else ''nominal environmental parameters.''),
           key_metrics =
             [\<lparr> metric_name = (if isWater then ''pH Level'' else if isDisease then ''Daily OPD'' else ''Larval Density''),
                 metric_value = (if isWater then ''7.4'' else if isDisease then ''145'' else ''12''),
                 metric_unit = (if isWater then [] else if isDisease then ''patients'' else ''per dip''),
                 metric_status = ''Neutral'' \<rparr>,
              \<lparr> metric_name = (if isWater then ''Turbidity'' else if isDisease then ''Viral Fever'' else ''Fogging Coverage''),
                 metric_value = (if isWater then ''12'' else if isDisease then ''45'' else ''85''),
                 metric_unit = (if isWater then ''NTU'' else if isDisease then ''cases'' else ''%''),
                 metric_status = (if isWater then ''Bad'' else ''Neutral'') \<rparr>,
              \<lparr> metric_name = (if isWater then ''Dissolved Oxygen'' else if isDisease then ''Bed Occupancy'' else ''Stagnant Water''),
                 metric_value = (if isWater then ''6.2'' else if isDisease then ''68'' else ''Low''),
                 metric_unit = (if isWater then ''mg/L'' else if isDisease then ''%'' else ''risk''),
                 metric_status = ''Good'' \<rparr>,
              \<lparr> metric_name = (if isWater then ''E. Coli'' else if isDisease then ''Critical Cases'' else ''Vector Index''),
                 metric_value = (if isWater then ''4'' else if isDisease then ''2'' else ''0.4''),
                 metric_unit = (if isWater then ''CFU'' else if isDisease then ''cases'' else []),
                 metric_status = ''Good'' \<rparr>],
           alerts = [''Simulated Alert: Data based on historical averages due to connection issue.''],
           recommendations = [''Check internet connection or API quota.'',
                              ''Verify field data manually before taking action.'',
                              ''Proceed with standard operating procedures.''],
           coordinates = \<lparr> lat = 26.1445, lng = 91.7362 \<rparr>,
           is_simulated = True \<rparr>)"

text \<open>The line written by \<^verbatim>\<open>console.info\<close> is returned beside the promise.\<close>

definition getAdvancedReport ::
    "real \<Rightarrow> string \<Rightarrow> Location \<Rightarrow> string \<times> AdvancedReport Promise" where
  "getAdvancedReport rnd reportType location =
     (''Offline mode active. Returning simulated '' @ reportType @ '' report for ''
        @ city location @ '', '' @ state location @ ''.'',
      Fulfilled (getMockAdvancedReport rnd reportType location))"

subsection \<open>The same operations on a store\<close>

text \<open>
  To say what a call leaves unchanged, the arrays and records of the caller are put in
  a store: a list of objects, an object's address being its position. An array holds
  the addresses of its elements, so a copy of an array shares the records. A new
  object is appended, so it never takes the address of an existing one. A read at an
  address that holds no object of the expected kind is \<open>None\<close>; the types of the
  source exclude it.
\<close>

type_synonym addr = nat

datatype obj = StateRec StateData | ReportRec WaterQualityReport | RefArray "addr list"

type_synonym store = "obj list"

definition lookup :: "store \<Rightarrow> addr \<Rightarrow> obj option" where
  "lookup h a = (if a < length h then Some (h ! a) else None)"

definition readArray :: "store \<Rightarrow> addr \<Rightarrow> addr list option" where
  "readArray h a = (case lookup h a of Some (RefArray refs) \<Rightarrow> Some refs | _ \<Rightarrow> None)"

definition readState :: "store \<Rightarrow> addr \<Rightarrow> StateData option" where
  "readState h a = (case lookup h a of Some (StateRec s) \<Rightarrow> Some s | _ \<Rightarrow> None)"

definition readReport :: "store \<Rightarrow> addr \<Rightarrow> WaterQualityReport option" where
  "readReport h a = (case lookup h a of Some (ReportRec r) \<Rightarrow> Some r | _ \<Rightarrow> None)"

text \<open>The records an array of states, or of reports, holds, in order.\<close>

definition statesAt :: "store \<Rightarrow> addr \<Rightarrow> StateData list option" where
  "statesAt h a = do { refs \<leftarrow> readArray h a; those (map (readState h) refs) }"

definition reportsAt :: "store \<Rightarrow> addr \<Rightarrow> WaterQualityReport list option" where
  "reportsAt h a = do { refs \<leftarrow> readArray h a; those (map (readReport h) refs) }"

text \<open>\<^verbatim>\<open>[...xs]\<close>: a new array with the elements of \<open>xs\<close>.\<close>

definition spread :: "addr \<Rightarrow> store \<Rightarrow> (addr \<times> store) option" where
  "spread a h = do { refs \<leftarrow> readArray h a; Some (length h, h @ [RefArray refs]) }"

text \<open>
  \<^verbatim>\<open>xs.sort(cmp)\<close> on an array of states: it reorders the array at \<open>a\<close> in place and
  returns the same array. The comparator reads the records the elements point to.
\<close>

definition sortStates ::
    "(StateData \<Rightarrow> StateData \<Rightarrow> int) \<Rightarrow> addr \<Rightarrow> store \<Rightarrow> (addr \<times> store) option" where
  "sortStates cmp a h =
     do { refs \<leftarrow> readArray h a;
          sts \<leftarrow> those (map (readState h) refs);
          Some (a, h[a := RefArray (map fst (sortBy (\<lambda>p q. cmp (snd p) (snd q)) (zip refs sts)))]) }"

definition getTopStateSummary_st :: "(number \<Rightarrow> string) \<Rightarrow> addr \<Rightarrow> store \<Rightarrow> (string \<times> store) option" where
  "getTopStateSummary_st fmt sa h =
     do { refs \<leftarrow> readArray h sa;
          if length refs = 0 then Some (''No state disease data is available yet.'', h)
          else do { (c, h1) \<leftarrow> spread sa h;
                    (c', h2) \<leftarrow> sortStates byBurden c h1;
                    sorted \<leftarrow> readArray h2 c';
                    topRef \<leftarrow> firstEntry sorted;
                    topState \<leftarrow> readState h2 topRef;
                    Some (burdenSentence fmt topState, h2) } }"

definition getRecentWaterSummary_st ::
    "(number \<Rightarrow> string) \<Rightarrow> addr \<Rightarrow> store \<Rightarrow> (string \<times> store) option" where
  "getRecentWaterSummary_st fmt ra h =
     do { refs \<leftarrow> readArray h ra;
          if length refs = 0 then Some (''No recent water quality reports are available.'', h)
          else do { latest \<leftarrow> readReport h (refs ! (length refs - 1));
                    Some (waterSentence fmt latest, h) } }"

text \<open>\<^verbatim>\<open>contextData\<close>: its two fields hold the addresses of the arrays.\<close>

record ContextRef =
  states_ref :: addr
  reports_ref :: addr

text \<open>In a template the summaries are computed from left to right.\<close>

definition getOfflineAssistantReply_st ::
    "(number \<Rightarrow> string) \<Rightarrow> string \<Rightarrow> ContextRef \<Rightarrow> store \<Rightarrow> (string \<times> store) option" where
  "getOfflineAssistantReply_st fmt userQuery contextData h =
     (let q = toLowerCase userQuery
      in if str_includes q ''ph'' \<or> str_includes q ''safe range''
         then Some (''The safe pH range for drinking water is 6.5 to 8.5.'', h)
         else if str_includes q ''state'' \<or> str_includes q ''disease'' \<or> str_includes q ''cases''
         then do { (t, h1) \<leftarrow> getTopStateSummary_st fmt (states_ref contextData) h;
                   (w, h2) \<leftarrow> getRecentWaterSummary_st fmt (reports_ref contextData) h1;
                   Some (t @ '' '' @ w, h2) }
         else if str_includes q ''water'' \<or> str_includes q ''quality''
                   \<or> str_includes q ''turbidity''
         then getRecentWaterSummary_st fmt (reports_ref contextData) h
         else do { (t, h1) \<leftarrow> getTopStateSummary_st fmt (states_ref contextData) h;
                   (w, h2) \<leftarrow> getRecentWaterSummary_st fmt (reports_ref contextData) h1;
                   Some (''I am running in offline mode without external AI APIs. ''
                           @ t @ '' '' @ w, h2) })"

definition askJalAssistantWithVoice_st ::
    "(number \<Rightarrow> string) \<Rightarrow> string \<Rightarrow> ContextRef \<Rightarrow> string \<Rightarrow> store
       \<Rightarrow> (JalAssistantResponse Promise \<times> store) option" where
  "askJalAssistantWithVoice_st fmt userQuery contextData languageCode h =
     do { (reply, h1) \<leftarrow> getOfflineAssistantReply_st fmt userQuery contextData h;
          Some (Fulfilled \<lparr> reply_text = reply, audioBase64 = None, audioMimeType = None \<rparr>, h1) }"

definition askJalAssistant_st ::
    "(number \<Rightarrow> string) \<Rightarrow> string \<Rightarrow> ContextRef \<Rightarrow> string \<Rightarrow> store
       \<Rightarrow> (string Promise \<times> store) option" where
  "askJalAssistant_st fmt userQuery contextData languageCode h =
     do { (p, h1) \<leftarrow> askJalAssistantWithVoice_st fmt userQuery contextData languageCode h;
          Some (case p of Fulfilled result \<Rightarrow> Fulfilled (reply_text result)
                        | Rejected e \<Rightarrow> Rejected e, h1) }"

definition generateHealthReport_st ::
    "(number \<Rightarrow> string) \<Rightarrow> addr \<Rightarrow> store \<Rightarrow> (string Promise \<times> store) option" where
  "generateHealthReport_st fmt a h = do { stateData \<leftarrow> readState h a; Some (generateHealthReport fmt stateData, h) }"

text \<open>
  A call of an exported function, with the addresses of the objects it is given, and
  what it hands back. A disease name and a report type are strings, a location is
  read field by field: they are passed as values.
\<close>

datatype call =
    GenerateHealthReport addr
  | SuggestPreventiveMeasures string
  | AskJalAssistant string ContextRef string
  | AskJalAssistantWithVoice string ContextRef string
  | GetAdvancedReport real string Location

datatype outcome =
    TextPromise "string Promise"
  | ListPromise "string list Promise"
  | ResponsePromise "JalAssistantResponse Promise"
  | ReportPromise string "AdvancedReport Promise"

fun perform :: "(number \<Rightarrow> string) \<Rightarrow> call \<Rightarrow> store \<Rightarrow> (outcome \<times> store) option" where
  "perform fmt (GenerateHealthReport a) h =
     do { (p, h1) \<leftarrow> generateHealthReport_st fmt a h; Some (TextPromise p, h1) }"
| "perform fmt (SuggestPreventiveMeasures diseaseName) h =
     Some (ListPromise (suggestPreventiveMeasures diseaseName), h)"
| "perform fmt (AskJalAssistant userQuery contextData languageCode) h =
     do { (p, h1) \<leftarrow> askJalAssistant_st fmt userQuery contextData languageCode h;
          Some (TextPromise p, h1) }"
| "perform fmt (AskJalAssistantWithVoice userQuery contextData languageCode) h =
     do { (p, h1) \<leftarrow> askJalAssistantWithVoice_st fmt userQuery contextData languageCode h;
          Some (ResponsePromise p, h1) }"
| "perform fmt (GetAdvancedReport rnd reportType location) h =
     (case getAdvancedReport rnd reportType location of
        (line, p) \<Rightarrow> Some (ReportPromise line p, h))"

text \<open>The inputs of a call have the kinds its parameter types ask for.\<close>

fun wellTyped :: "call \<Rightarrow> store \<Rightarrow> bool" where
  "wellTyped (GenerateHealthReport a) h = (readState h a \<noteq> None)"
| "wellTyped (AskJalAssistant userQuery contextData languageCode) h =
     (statesAt h (states_ref contextData) \<noteq> None \<and>
      reportsAt h (reports_ref contextData) \<noteq> None)"
| "wellTyped (AskJalAssistantWithVoice userQuery contextData languageCode) h =
     (statesAt h (states_ref contextData) \<noteq> None \<and>
      reportsAt h (reports_ref contextData) \<noteq> None)"
| "wellTyped _ h = True"

subsection \<open>Sample inputs\<close>

definition threeStates :: "StateData list" where
  "threeStates =
     [\<lparr>name = ''Assam'', totalAffected = 10, diseases = []\<rparr>,
      \<lparr>name = ''Bihar'', totalAffected = 30, diseases = []\<rparr>,
      \<lparr>name = ''Goa'', totalAffected = 30, diseases = []\<rparr>]"

definition safeReport :: WaterQualityReport where
  "safeReport = \<lparr>siteName = ''Well 3'', siteType = ''well'', ph = Finite 7, turbidity = Finite 2\<rparr>"

definition alkalineReport :: WaterQualityReport where
  "alkalineReport = \<lparr>siteName = ''Pond 1'', siteType = ''pond'', ph = Finite 9, turbidity = Finite 2\<rparr>"

definition turbidReport :: WaterQualityReport where
  "turbidReport = \<lparr>siteName = ''Tap 7'', siteType = ''tap'', ph = Finite 7, turbidity = Finite 6\<rparr>"

definition sampleContext :: ContextData where
  "sampleContext = \<lparr>states = threeStates, reports = [alkalineReport, safeReport]\<rparr>"

definition unnamedDiseaseState :: StateData where
  "unnamedDiseaseState =
     \<lparr>name = ''Assam'', totalAffected = 10,
      diseases = [\<lparr>disease_name = [], affected = 5\<rparr>, \<lparr>disease_name = ''Cholera'', affected = 3\<rparr>]\<rparr>"

definition cityX :: CityLocation where
  "cityX = \<lparr>city = ''X''\<rparr>"

text \<open>A store with the sample states at 0 to 2, two reports at 3 and 4, and their arrays at 5 and 6.\<close>

definition sampleStore :: store where
  "sampleStore =
     map StateRec threeStates
       @ [ReportRec alkalineReport, ReportRec safeReport, RefArray [0, 1, 2], RefArray [3, 4]]"

definition sampleRefs :: ContextRef where
  "sampleRefs = \<lparr>states_ref = 5, reports_ref = 6\<rparr>"

section \<open>Properties\<close>

subsection \<open>Facts about strings\<close>

lemma startsWith_iff: "startsWith s k \<longleftrightarrow> (\<exists>r. s = k @ r)"
  by (induction s k rule: startsWith.induct) auto

lemma str_includes_iff: "str_includes s k \<longleftrightarrow> (\<exists>p r. s = p @ k @ r)"
proof (induction s)
  case Nil
  then show ?case by simp
next
  case (Cons c cs)
  show ?case
  proof
    assume "str_includes (c # cs) k"
    then consider "startsWith (c # cs) k" | "str_includes cs k" by auto
    then show "\<exists>p r. c # cs = p @ k @ r"
    proof cases
      case 1
      then obtain r where "c # cs = k @ r" by (auto simp: startsWith_iff)
      then have "c # cs = [] @ k @ r" by simp
      then show ?thesis by blast
    next
      case 2
      then obtain p r where "cs = p @ k @ r" using Cons.IH by blast
      then have "c # cs = (c # p) @ k @ r" by simp
      then show ?thesis by blast
    qed
  next
    assume "\<exists>p r. c # cs = p @ k @ r"
    then obtain p r where e: "c # cs = p @ k @ r" by blast
    show "str_includes (c # cs) k"
    proof (cases p)
      case Nil
      with e have "startsWith (c # cs) k" by (auto simp: startsWith_iff)
      then show ?thesis by simp
    next
      case (Cons a p')
      with e have "cs = p' @ k @ r" by simp
      then have "str_includes cs k" using Cons.IH by blast
      then show ?thesis by simp
    qed
  qed
qed

lemma str_includes_append: "str_includes (p @ k @ r) k"
  by (auto simp: str_includes_iff)

lemma endsWith_iff: "endsWith s k \<longleftrightarrow> (\<exists>p. s = p @ k)"
proof -
  have "endsWith s k \<longleftrightarrow> (\<exists>r. rev s = rev k @ r)"
    by (simp add: endsWith_def startsWith_iff)
  also have "\<dots> \<longleftrightarrow> (\<exists>p. s = p @ k)"
  proof
    assume "\<exists>r. rev s = rev k @ r"
    then obtain r where "rev s = rev k @ r" by blast
    then have "rev (rev s) = rev (rev k @ r)" by simp
    then have "s = rev r @ k" by simp
    then show "\<exists>p. s = p @ k" by blast
  next
    assume "\<exists>p. s = p @ k"
    then obtain p where "s = p @ k" by blast
    then have "rev s = rev k @ rev p" by simp
    then show "\<exists>r. rev s = rev k @ r" by blast
  qed
  finally show ?thesis .
qed

subsection \<open>Facts about sorting\<close>

lemma length_insertBy: "length (insertBy cmp x ys) = Suc (length ys)"
  by (induction ys) auto

lemma length_sortBy: "length (sortBy cmp xs) = length xs"
  by (induction xs) (auto simp: length_insertBy)

lemma set_insertBy: "set (insertBy cmp x ys) = insert x (set ys)"
  by (induction ys) auto

lemma set_sortBy: "set (sortBy cmp xs) = set xs"
  by (induction xs) (auto simp: set_insertBy)

lemma hd_insertBy:
  "hd (insertBy cmp x ys) = (if ys = [] \<or> cmp x (hd ys) \<le> 0 then x else hd ys)"
  by (cases ys) auto

lemma sortBy_nonempty: "xs \<noteq> [] \<Longrightarrow> sortBy cmp xs \<noteq> []"
  using length_sortBy [of cmp xs] by auto

lemma byBurden_le: "byBurden a b \<le> 0 \<longleftrightarrow> totalAffected b \<le> totalAffected a"
  by (simp add: byBurden_def)

lemma hd_sortBy_byBurden:
  "sts \<noteq> [] \<Longrightarrow>
     hd (sortBy byBurden sts) \<in> set sts \<and>
     (\<forall>s \<in> set sts. totalAffected s \<le> totalAffected (hd (sortBy byBurden sts)))"
proof (induction sts)
  case Nil
  then show ?case by simp
next
  case (Cons x xs)
  show ?case
  proof (cases "xs = []")
    case True
    then show ?thesis by simp
  next
    case False
    with Cons.IH have ih:
      "hd (sortBy byBurden xs) \<in> set xs"
      "\<forall>s \<in> set xs. totalAffected s \<le> totalAffected (hd (sortBy byBurden xs))"
      by auto
    from False have ne: "sortBy byBurden xs \<noteq> []" by (rule sortBy_nonempty)
    show ?thesis
      using ih ne by (auto simp: hd_insertBy byBurden_le)
  qed
qed

subsection \<open>The top state summary\<close>

text \<open>
  Claim C1. For a non-empty sequence of state records, \<^verbatim>\<open>getTopStateSummary\<close> returns
  the sentence of line 12 for a state \<open>t\<close> of the sequence whose \<open>totalAffected\<close> is at
  least that of every element; for the empty sequence it returns the fixed string
  \<^verbatim>\<open>No state disease data is available yet.\<close>
\<close>

theorem getTopStateSummary_names_a_maximum:
  "getTopStateSummary fmt [] = ''No state disease data is available yet.'' \<and>
   (sts \<noteq> [] \<longrightarrow>
      (\<exists>t \<in> set sts.
          getTopStateSummary fmt sts =
            name t @ '' currently has the highest reported disease burden with ''
              @ fmt (Finite (of_int (totalAffected t))) @ '' affected cases.'' \<and>
          (\<forall>s \<in> set sts. totalAffected s \<le> totalAffected t)))"
proof (intro conjI impI)
  show "getTopStateSummary fmt [] = ''No state disease data is available yet.''"
    by (simp add: getTopStateSummary_def)
next
  assume ne: "sts \<noteq> []"
  let ?t = "hd (sortBy byBurden sts)"
  from ne have m: "?t \<in> set sts" "\<forall>s \<in> set sts. totalAffected s \<le> totalAffected ?t"
    using hd_sortBy_byBurden by blast+
  from ne have "getTopStateSummary fmt sts = burdenSentence fmt ?t"
    by (simp add: getTopStateSummary_def)
  then have "getTopStateSummary fmt sts =
      name ?t @ '' currently has the highest reported disease burden with ''
        @ fmt (Finite (of_int (totalAffected ?t))) @ '' affected cases.''"
    by (simp only: burdenSentence_def)
  with m show "\<exists>t \<in> set sts.
      getTopStateSummary fmt sts =
        name t @ '' currently has the highest reported disease burden with ''
          @ fmt (Finite (of_int (totalAffected t))) @ '' affected cases.'' \<and>
      (\<forall>s \<in> set sts. totalAffected s \<le> totalAffected t)"
    by blast
qed

text \<open>
  Bihar and Goa tie at 30: the stable sort keeps Bihar, the earlier one, in front.
\<close>

lemma threeStates_summary:
  "getTopStateSummary wholeNumber threeStates =
     ''Bihar currently has the highest reported disease burden with 30 affected cases.''"
  by code_simp

theorem getTopStateSummary_names_a_maximum_witness:
  "threeStates \<noteq> [] \<and>
   getTopStateSummary wholeNumber threeStates =
     ''Bihar currently has the highest reported disease burden with 30 affected cases.'' \<and>
   (\<exists>t \<in> set threeStates.
      getTopStateSummary wholeNumber threeStates =
        name t @ '' currently has the highest reported disease burden with ''
          @ wholeNumber (Finite (of_int (totalAffected t))) @ '' affected cases.'' \<and>
      (\<forall>s \<in> set threeStates. totalAffected s \<le> totalAffected t))"
proof -
  have ne: "threeStates \<noteq> []" by (simp add: threeStates_def)
  from getTopStateSummary_names_a_maximum [of wholeNumber threeStates] ne
  show ?thesis using threeStates_summary by blast
qed

lemma toLowerCase_append: "toLowerCase (a @ b) = toLowerCase a @ toLowerCase b"
  by (simp add: toLowerCase_def)

lemma str_includes_toLowerCase:
  assumes "str_includes s k"
  shows "str_includes (toLowerCase s) (toLowerCase k)"
proof -
  from assms obtain p r where "s = p @ k @ r" by (auto simp: str_includes_iff)
  then have "toLowerCase s = toLowerCase p @ toLowerCase k @ toLowerCase r"
    by (simp add: toLowerCase_append)
  then show ?thesis by (simp add: str_includes_append)
qed

subsection \<open>The recent water summary\<close>

lemma getRecentWaterSummary_last:
  assumes "rs \<noteq> []"
  shows "getRecentWaterSummary fmt rs =
           ''Latest site '' @ siteName (last rs) @ '' ('' @ siteType (last rs)
             @ '') shows pH '' @ fmt (ph (last rs)) @ '' and turbidity ''
             @ fmt (turbidity (last rs)) @ '' NTU, which ''
             @ (if safeReading (last rs) then ''within safe range'' else ''needs attention'')
             @ ''.''"
proof -
  from assms have "rs ! (length rs - 1) = last rs" by (simp add: last_conv_nth)
  with assms show ?thesis
    by (simp add: getRecentWaterSummary_def waterSentence_def safeReading_def Let_def)
qed

lemma endsWith_append: "endsWith (p @ k) k"
  by (auto simp: endsWith_iff)

text \<open>
  Claim C2. For a non-empty sequence of water quality records, the sentence of
  \<^verbatim>\<open>getRecentWaterSummary\<close> carries the verdict \<^verbatim>\<open>within safe range\<close> exactly when the
  last record has \<open>6.5 \<le> ph\<close>, \<open>ph \<le> 8.5\<close> and \<open>turbidity < 5\<close>, and the verdict
  \<^verbatim>\<open>needs attention\<close> otherwise; for the empty sequence it returns the fixed string
  \<^verbatim>\<open>No recent water quality reports are available.\<close> The verdict is read where the
  template puts it, in front of the final full stop: a site name is free text and can
  hold either verdict itself.
\<close>

theorem getRecentWaterSummary_verdict:
  "getRecentWaterSummary fmt [] = ''No recent water quality reports are available.'' \<and>
   (rs \<noteq> [] \<longrightarrow>
      getRecentWaterSummary fmt rs =
        ''Latest site '' @ siteName (last rs) @ '' ('' @ siteType (last rs)
          @ '') shows pH '' @ fmt (ph (last rs)) @ '' and turbidity ''
          @ fmt (turbidity (last rs)) @ '' NTU, which ''
          @ (if num_ge (ph (last rs)) (Finite 6.5) \<and> num_le (ph (last rs)) (Finite 8.5)
                \<and> num_lt (turbidity (last rs)) (Finite 5)
             then ''within safe range'' else ''needs attention'')
          @ ''.'' \<and>
      (endsWith (getRecentWaterSummary fmt rs) '', which within safe range.'' \<longleftrightarrow>
         num_ge (ph (last rs)) (Finite 6.5) \<and> num_le (ph (last rs)) (Finite 8.5)
           \<and> num_lt (turbidity (last rs)) (Finite 5)) \<and>
      (endsWith (getRecentWaterSummary fmt rs) '', which needs attention.'' \<longleftrightarrow>
         \<not> (num_ge (ph (last rs)) (Finite 6.5) \<and> num_le (ph (last rs)) (Finite 8.5)
           \<and> num_lt (turbidity (last rs)) (Finite 5))) \<and>
      str_includes (getRecentWaterSummary fmt rs)
        (if num_ge (ph (last rs)) (Finite 6.5) \<and> num_le (ph (last rs)) (Finite 8.5)
              \<and> num_lt (turbidity (last rs)) (Finite 5)
         then ''within safe range'' else ''needs attention''))"
proof (intro conjI impI)
  show "getRecentWaterSummary fmt [] = ''No recent water quality reports are available.''"
    by (simp add: getRecentWaterSummary_def)
next
  assume ne: "rs \<noteq> []"
  note s = getRecentWaterSummary_last [OF ne, of fmt]
  show "getRecentWaterSummary fmt rs =
        ''Latest site '' @ siteName (last rs) @ '' ('' @ siteType (last rs)
          @ '') shows pH '' @ fmt (ph (last rs)) @ '' and turbidity ''
          @ fmt (turbidity (last rs)) @ '' NTU, which ''
          @ (if num_ge (ph (last rs)) (Finite 6.5) \<and> num_le (ph (last rs)) (Finite 8.5)
                \<and> num_lt (turbidity (last rs)) (Finite 5)
             then ''within safe range'' else ''needs attention'')
          @ ''.''"
    using s by (simp add: safeReading_def)
  show "endsWith (getRecentWaterSummary fmt rs) '', which within safe range.'' \<longleftrightarrow>
         num_ge (ph (last rs)) (Finite 6.5) \<and> num_le (ph (last rs)) (Finite 8.5)
           \<and> num_lt (turbidity (last rs)) (Finite 5)"
    unfolding s safeReading_def [symmetric]
    by (cases "safeReading (last rs)") (simp_all add: endsWith_def)
  show "endsWith (getRecentWaterSummary fmt rs) '', which needs attention.'' \<longleftrightarrow>
         \<not> (num_ge (ph (last rs)) (Finite 6.5) \<and> num_le (ph (last rs)) (Finite 8.5)
           \<and> num_lt (turbidity (last rs)) (Finite 5))"
    unfolding s safeReading_def [symmetric]
    by (cases "safeReading (last rs)") (simp_all add: endsWith_def)
  define front where
    "front = ''Latest site '' @ siteName (last rs) @ '' ('' @ siteType (last rs)
       @ '') shows pH '' @ fmt (ph (last rs)) @ '' and turbidity ''
       @ fmt (turbidity (last rs)) @ '' NTU, which ''"
  have "getRecentWaterSummary fmt rs =
          front @ (if safeReading (last rs) then ''within safe range'' else ''needs attention'')
            @ ''.''"
    unfolding s front_def by simp
  then have "str_includes (getRecentWaterSummary fmt rs)
          (if safeReading (last rs) then ''within safe range'' else ''needs attention'')"
    by (simp only: str_includes_append)
  then show "str_includes (getRecentWaterSummary fmt rs)
        (if num_ge (ph (last rs)) (Finite 6.5) \<and> num_le (ph (last rs)) (Finite 8.5)
              \<and> num_lt (turbidity (last rs)) (Finite 5)
         then ''within safe range'' else ''needs attention'')"
    by (simp add: safeReading_def)
qed

theorem getRecentWaterSummary_verdict_witness:
  "[safeReport] \<noteq> [] \<and>
   endsWith (getRecentWaterSummary wholeNumber [safeReport]) '', which within safe range.'' \<and>
   getRecentWaterSummary wholeNumber [safeReport] =
     ''Latest site Well 3 (well) shows pH 7 and turbidity 2 NTU, which within safe range.'' \<and>
   endsWith (getRecentWaterSummary wholeNumber [safeReport, alkalineReport])
     '', which needs attention.'' \<and>
   endsWith (getRecentWaterSummary wholeNumber [safeReport, turbidReport])
     '', which needs attention.''"
proof -
  have a: "num_ge (ph (last [safeReport])) (Finite 6.5) \<and>
           num_le (ph (last [safeReport])) (Finite 8.5) \<and>
           num_lt (turbidity (last [safeReport])) (Finite 5)"
    by (simp add: safeReport_def num_ge_def)
  have b: "\<not> (num_ge (ph (last [safeReport, alkalineReport])) (Finite 6.5) \<and>
              num_le (ph (last [safeReport, alkalineReport])) (Finite 8.5) \<and>
              num_lt (turbidity (last [safeReport, alkalineReport])) (Finite 5))"
    by (simp add: alkalineReport_def num_ge_def)
  have c: "\<not> (num_ge (ph (last [safeReport, turbidReport])) (Finite 6.5) \<and>
              num_le (ph (last [safeReport, turbidReport])) (Finite 8.5) \<and>
              num_lt (turbidity (last [safeReport, turbidReport])) (Finite 5))"
    by (simp add: turbidReport_def num_ge_def)
  have d: "getRecentWaterSummary wholeNumber [safeReport] =
     ''Latest site Well 3 (well) shows pH 7 and turbidity 2 NTU, which within safe range.''"
    by (simp add: getRecentWaterSummary_def waterSentence_def safeReport_def num_ge_def wholeNumber_def
          decimalOfInt_def digits.simps)
  from getRecentWaterSummary_verdict [of wholeNumber "[safeReport]"] a
  have 1: "endsWith (getRecentWaterSummary wholeNumber [safeReport])
             '', which within safe range.''"
    by blast
  from getRecentWaterSummary_verdict [of wholeNumber "[safeReport, alkalineReport]"] b
  have 2: "endsWith (getRecentWaterSummary wholeNumber [safeReport, alkalineReport])
             '', which needs attention.''"
    by blast
  from getRecentWaterSummary_verdict [of wholeNumber "[safeReport, turbidReport]"] c
  have 3: "endsWith (getRecentWaterSummary wholeNumber [safeReport, turbidReport])
             '', which needs attention.''"
    by blast
  from 1 2 3 d show ?thesis by simp
qed

subsection \<open>The offline reply\<close>

text \<open>
  Claim C3. For every query whose lower-cased form contains \<^verbatim>\<open>ph\<close> or
  \<^verbatim>\<open>safe range\<close>, and every context, \<^verbatim>\<open>getOfflineAssistantReply\<close> returns the fixed
  pH fact; no other keyword of the query matters, since this test comes first.
\<close>

theorem getOfflineAssistantReply_ph_first:
  "str_includes (toLowerCase userQuery) ''ph'' \<or> str_includes (toLowerCase userQuery) ''safe range''
   \<Longrightarrow> getOfflineAssistantReply fmt userQuery contextData =
         ''The safe pH range for drinking water is 6.5 to 8.5.''"
  by (simp add: getOfflineAssistantReply_def Let_def)

lemma lower_ph_query:
  "toLowerCase ''What is the safe pH range?'' = ''what is the safe ph range?''"
  by code_simp

lemma lower_typhoid_query:
  "toLowerCase ''Typhoid disease cases by state and water quality''
     = ''typhoid disease cases by state and water quality''"
  by code_simp

theorem getOfflineAssistantReply_ph_first_witness:
  "str_includes (toLowerCase ''What is the safe pH range?'') ''ph'' \<and>
   getOfflineAssistantReply wholeNumber ''What is the safe pH range?'' sampleContext =
     ''The safe pH range for drinking water is 6.5 to 8.5.'' \<and>
   str_includes (toLowerCase ''Typhoid disease cases by state and water quality'') ''ph'' \<and>
   str_includes (toLowerCase ''Typhoid disease cases by state and water quality'') ''disease'' \<and>
   str_includes (toLowerCase ''Typhoid disease cases by state and water quality'') ''water'' \<and>
   getOfflineAssistantReply wholeNumber ''Typhoid disease cases by state and water quality''
       sampleContext =
     ''The safe pH range for drinking water is 6.5 to 8.5.''"
proof -
  have a: "str_includes (toLowerCase ''What is the safe pH range?'') ''ph''"
    by (simp add: lower_ph_query)
  have b: "str_includes (toLowerCase ''Typhoid disease cases by state and water quality'') ''ph''"
    by (simp add: lower_typhoid_query)
  have c: "str_includes (toLowerCase ''Typhoid disease cases by state and water quality'') ''disease''"
    by (simp add: lower_typhoid_query)
  have d: "str_includes (toLowerCase ''Typhoid disease cases by state and water quality'') ''water''"
    by (simp add: lower_typhoid_query)
  from a b c d
    getOfflineAssistantReply_ph_first [of "''What is the safe pH range?''" wholeNumber sampleContext]
    getOfflineAssistantReply_ph_first
      [of "''Typhoid disease cases by state and water quality''" wholeNumber sampleContext]
  show ?thesis by blast
qed

text \<open>
  Claim C4, as amended. For every query that contains \<^verbatim>\<open>disease\<close> (as written or after
  lower-casing) and whose lower-cased form contains neither \<^verbatim>\<open>ph\<close> nor
  \<^verbatim>\<open>safe range\<close>, and for every context, the reply of \<^verbatim>\<open>getOfflineAssistantReply\<close>, which
  \<^verbatim>\<open>askJalAssistant\<close> passes on, is the top state summary, one space, and the recent
  water summary of that context.
\<close>

theorem getOfflineAssistantReply_disease:
  assumes "str_includes userQuery ''disease'' \<or> str_includes (toLowerCase userQuery) ''disease''"
    and "\<not> str_includes (toLowerCase userQuery) ''ph''"
    and "\<not> str_includes (toLowerCase userQuery) ''safe range''"
  shows "getOfflineAssistantReply fmt userQuery contextData =
           getTopStateSummary fmt (states contextData) @ '' ''
             @ getRecentWaterSummary fmt (reports contextData) \<and>
         askJalAssistant fmt userQuery contextData languageCode =
           Fulfilled (getTopStateSummary fmt (states contextData) @ '' ''
             @ getRecentWaterSummary fmt (reports contextData))"
proof -
  have low: "toLowerCase ''disease'' = ''disease''" by code_simp
  from assms(1) have d: "str_includes (toLowerCase userQuery) ''disease''"
    using str_includes_toLowerCase [of userQuery "''disease''"] by (auto simp: low)
  with assms(2,3) have r: "getOfflineAssistantReply fmt userQuery contextData =
           getTopStateSummary fmt (states contextData) @ '' ''
             @ getRecentWaterSummary fmt (reports contextData)"
    by (simp add: getOfflineAssistantReply_def Let_def)
  then show ?thesis
    by (simp add: askJalAssistant_def askJalAssistantWithVoice_def)
qed

lemma lower_disease_query:
  "toLowerCase ''Which disease is spreading?'' = ''which disease is spreading?''"
  by code_simp

lemma sampleContext_top:
  "getTopStateSummary wholeNumber (states sampleContext) =
     ''Bihar currently has the highest reported disease burden with 30 affected cases.''"
  using threeStates_summary by (simp add: sampleContext_def)

lemma sampleContext_water:
  "getRecentWaterSummary wholeNumber (reports sampleContext) =
     ''Latest site Well 3 (well) shows pH 7 and turbidity 2 NTU, which within safe range.''"
  by (simp add: getRecentWaterSummary_def waterSentence_def sampleContext_def safeReport_def
        num_ge_def wholeNumber_def decimalOfInt_def digits.simps)

theorem getOfflineAssistantReply_disease_witness:
  "str_includes ''Which disease is spreading?'' ''disease'' \<and>
   \<not> str_includes (toLowerCase ''Which disease is spreading?'') ''ph'' \<and>
   \<not> str_includes (toLowerCase ''Which disease is spreading?'') ''safe range'' \<and>
   states sampleContext \<noteq> [] \<and> reports sampleContext \<noteq> [] \<and>
   getOfflineAssistantReply wholeNumber ''Which disease is spreading?'' sampleContext =
     ''Bihar currently has the highest reported disease burden with 30 affected cases. Latest site Well 3 (well) shows pH 7 and turbidity 2 NTU, which within safe range.'' \<and>
   askJalAssistant wholeNumber ''Which disease is spreading?'' sampleContext ''en-IN'' =
     Fulfilled ''Bihar currently has the highest reported disease burden with 30 affected cases. Latest site Well 3 (well) shows pH 7 and turbidity 2 NTU, which within safe range.''"
proof -
  have a: "str_includes ''Which disease is spreading?'' ''disease''" by simp
  have b: "\<not> str_includes (toLowerCase ''Which disease is spreading?'') ''ph''"
    by (simp add: lower_disease_query)
  have c: "\<not> str_includes (toLowerCase ''Which disease is spreading?'') ''safe range''"
    by (simp add: lower_disease_query)
  have d: "states sampleContext \<noteq> [] \<and> reports sampleContext \<noteq> []"
    by (simp add: sampleContext_def threeStates_def)
  from getOfflineAssistantReply_disease
         [of "''Which disease is spreading?''" wholeNumber sampleContext "''en-IN''"] a b c
  have "getOfflineAssistantReply wholeNumber ''Which disease is spreading?'' sampleContext =
           getTopStateSummary wholeNumber (states sampleContext) @ '' ''
             @ getRecentWaterSummary wholeNumber (reports sampleContext) \<and>
        askJalAssistant wholeNumber ''Which disease is spreading?'' sampleContext ''en-IN'' =
           Fulfilled (getTopStateSummary wholeNumber (states sampleContext) @ '' ''
             @ getRecentWaterSummary wholeNumber (reports sampleContext))"
    by blast
  then show ?thesis
    using a b c d by (simp add: sampleContext_top sampleContext_water)
qed

text \<open>
  The claim as written fails twice. The query \<^verbatim>\<open>typhoid disease\<close> contains
  \<^verbatim>\<open>disease\<close>, but also \<^verbatim>\<open>ph\<close> (inside \<^verbatim>\<open>typhoid\<close>), so the first branch answers with
  the pH fact. And the query \<^verbatim>\<open>disease\<close> is answered with the two summaries joined by
  a space, which is not their concatenation.
\<close>

lemma lower_typhoid_disease: "toLowerCase ''typhoid disease'' = ''typhoid disease''"
  by code_simp

lemma lower_disease: "toLowerCase ''disease'' = ''disease''"
  by code_simp

theorem getOfflineAssistantReply_disease_counterexample:
  "str_includes ''typhoid disease'' ''disease'' \<and>
   states sampleContext \<noteq> [] \<and> reports sampleContext \<noteq> [] \<and>
   getOfflineAssistantReply wholeNumber ''typhoid disease'' sampleContext =
     ''The safe pH range for drinking water is 6.5 to 8.5.'' \<and>
   getOfflineAssistantReply wholeNumber ''typhoid disease'' sampleContext \<noteq>
     getTopStateSummary wholeNumber (states sampleContext)
       @ getRecentWaterSummary wholeNumber (reports sampleContext) \<and>
   getOfflineAssistantReply wholeNumber ''typhoid disease'' sampleContext \<noteq>
     getTopStateSummary wholeNumber (states sampleContext) @ '' ''
       @ getRecentWaterSummary wholeNumber (reports sampleContext) \<and>
   str_includes ''disease'' ''disease'' \<and>
   getOfflineAssistantReply wholeNumber ''disease'' sampleContext \<noteq>
     getTopStateSummary wholeNumber (states sampleContext)
       @ getRecentWaterSummary wholeNumber (reports sampleContext)"
proof -
  have d: "states sampleContext \<noteq> [] \<and> reports sampleContext \<noteq> []"
    by (simp add: sampleContext_def threeStates_def)
  have t: "getOfflineAssistantReply wholeNumber ''typhoid disease'' sampleContext =
     ''The safe pH range for drinking water is 6.5 to 8.5.''"
    by (simp add: getOfflineAssistantReply_def lower_typhoid_disease)
  have p: "getOfflineAssistantReply wholeNumber ''disease'' sampleContext =
     getTopStateSummary wholeNumber (states sampleContext) @ '' ''
       @ getRecentWaterSummary wholeNumber (reports sampleContext)"
    by (simp add: getOfflineAssistantReply_def lower_disease)
  show ?thesis
    unfolding t p using d by (simp add: sampleContext_top sampleContext_water)
qed

subsection \<open>Preventive measures\<close>

text \<open>
  Claim C5. For every disease name whose lower-cased form contains \<^verbatim>\<open>cholera\<close>,
  \<^verbatim>\<open>suggestPreventiveMeasures\<close> returns the three cholera strings in order; for every
  name whose lower-cased form contains neither \<^verbatim>\<open>cholera\<close> nor \<^verbatim>\<open>typhoid\<close> (the
  empty name among them) it returns the three default strings in order; the promise is
  always fulfilled, with exactly three strings.
\<close>

theorem suggestPreventiveMeasures_lists:
  "(str_includes (toLowerCase diseaseName) ''cholera'' \<longrightarrow>
      suggestPreventiveMeasures diseaseName =
        Fulfilled [''Use chlorinated drinking water'',
                   ''Wash fruits and utensils with clean water'',
                   ''Use ORS and seek care immediately for severe diarrhea'']) \<and>
   (\<not> str_includes (toLowerCase diseaseName) ''cholera'' \<and>
    \<not> str_includes (toLowerCase diseaseName) ''typhoid'' \<longrightarrow>
      suggestPreventiveMeasures diseaseName =
        Fulfilled [''Drink boiled or filtered water'',
                   ''Wash hands with soap before meals'',
                   ''Avoid uncovered street food'']) \<and>
   (\<exists>a b c. suggestPreventiveMeasures diseaseName = Fulfilled [a, b, c])"
  by (simp add: suggestPreventiveMeasures_def Let_def)

lemma lower_cholera_outbreak: "toLowerCase ''Cholera outbreak'' = ''cholera outbreak''"
  by code_simp

lemma lower_flu: "toLowerCase ''flu'' = ''flu''"
  by code_simp

lemma lower_empty: "toLowerCase [] = []"
  by (simp add: toLowerCase_def)

theorem suggestPreventiveMeasures_lists_witness:
  "str_includes (toLowerCase ''Cholera outbreak'') ''cholera'' \<and>
   suggestPreventiveMeasures ''Cholera outbreak'' =
     Fulfilled [''Use chlorinated drinking water'',
                ''Wash fruits and utensils with clean water'',
                ''Use ORS and seek care immediately for severe diarrhea''] \<and>
   \<not> str_includes (toLowerCase ''flu'') ''cholera'' \<and>
   \<not> str_includes (toLowerCase ''flu'') ''typhoid'' \<and>
   suggestPreventiveMeasures ''flu'' =
     Fulfilled [''Drink boiled or filtered water'',
                ''Wash hands with soap before meals'',
                ''Avoid uncovered street food''] \<and>
   \<not> str_includes (toLowerCase []) ''cholera'' \<and>
   \<not> str_includes (toLowerCase []) ''typhoid'' \<and>
   suggestPreventiveMeasures [] =
     Fulfilled [''Drink boiled or filtered water'',
                ''Wash hands with soap before meals'',
                ''Avoid uncovered street food'']"
proof -
  have a: "str_includes (toLowerCase ''Cholera outbreak'') ''cholera''"
    by (simp add: lower_cholera_outbreak)
  have b: "\<not> str_includes (toLowerCase ''flu'') ''cholera'' \<and>
           \<not> str_includes (toLowerCase ''flu'') ''typhoid''"
    by (simp add: lower_flu)
  have c: "\<not> str_includes (toLowerCase []) ''cholera'' \<and>
           \<not> str_includes (toLowerCase []) ''typhoid''"
    by (simp add: lower_empty)
  from a b c
    suggestPreventiveMeasures_lists [of "''Cholera outbreak''"]
    suggestPreventiveMeasures_lists [of "''flu''"]
    suggestPreventiveMeasures_lists [of "[]"]
  show ?thesis by blast
qed

subsection \<open>The health report\<close>

text \<open>
  Claim C6, as amended. \<^verbatim>\<open>generateHealthReport\<close> never fails: for every state record
  its promise is fulfilled with the text of line 47, which names the state, the total
  affected count, and a top concern with its count. The top concern is the first entry
  of the disease list when that entry has a non-empty name; it is the literal
  \<^verbatim>\<open>water-borne disease\<close> when the list is empty or the first entry's name is empty.
  The count is that of the first entry, and 0 when the list is empty.
\<close>

theorem generateHealthReport_text:
  "generateHealthReport fmt stateData =
     Fulfilled
       (''Offline analysis for '' @ name stateData @ '': total affected ''
          @ fmt (Finite (of_int (totalAffected stateData))) @ ''. Top concern is ''
          @ (case diseases stateData of
               [] \<Rightarrow> ''water-borne disease''
             | d # _ \<Rightarrow> if disease_name d = [] then ''water-borne disease'' else disease_name d)
          @ '' with ''
          @ fmt (Finite (of_int (case diseases stateData of [] \<Rightarrow> 0 | d # _ \<Rightarrow> affected d)))
          @ '' reported cases.'' @ [CHR 0x0A, CHR 0x0A]
          @ ''RECOMMENDATION: Prioritize chlorination checks and ORS stock in high-burden districts this week.'')"
  by (cases "diseases stateData")
     (simp_all add: generateHealthReport_def healthReportText_def firstEntry_def
        orString_def orCount_def Let_def)

text \<open>
  The claim as written fails on a record whose first disease entry has the empty
  name: the report does not name that entry, it says \<^verbatim>\<open>water-borne disease\<close>, although
  the list is not empty, and keeps the entry's count 5.
\<close>

theorem generateHealthReport_counterexample:
  "diseases unnamedDiseaseState \<noteq> [] \<and>
   generateHealthReport wholeNumber unnamedDiseaseState =
     Fulfilled
       (''Offline analysis for Assam: total affected 10. Top concern is water-borne disease with 5 reported cases.''
          @ [CHR 0x0A, CHR 0x0A]
          @ ''RECOMMENDATION: Prioritize chlorination checks and ORS stock in high-burden districts this week.'') \<and>
   generateHealthReport wholeNumber unnamedDiseaseState \<noteq>
     Fulfilled
       (''Offline analysis for '' @ name unnamedDiseaseState @ '': total affected ''
          @ wholeNumber (Finite (of_int (totalAffected unnamedDiseaseState))) @ ''. Top concern is ''
          @ disease_name (hd (diseases unnamedDiseaseState)) @ '' with ''
          @ wholeNumber (Finite (of_int (affected (hd (diseases unnamedDiseaseState)))))
          @ '' reported cases.'' @ [CHR 0x0A, CHR 0x0A]
          @ ''RECOMMENDATION: Prioritize chlorination checks and ORS stock in high-burden districts this week.'')"
  by (simp add: generateHealthReport_def healthReportText_def firstEntry_def
        orString_def orCount_def Let_def unnamedDiseaseState_def wholeNumber_def
        decimalOfInt_def digits.simps)

subsection \<open>The assistant wrappers\<close>

text \<open>
  Claim C8. For every query and context and any two language codes,
  \<^verbatim>\<open>askJalAssistant\<close> returns the same string and \<^verbatim>\<open>askJalAssistantWithVoice\<close> the same
  response; and the response of \<^verbatim>\<open>askJalAssistantWithVoice\<close> always has
  \<^verbatim>\<open>audioBase64\<close> and \<^verbatim>\<open>audioMimeType\<close> absent.
\<close>

theorem askJalAssistant_ignores_language:
  "askJalAssistant fmt userQuery contextData languageCode1 =
     askJalAssistant fmt userQuery contextData languageCode2 \<and>
   askJalAssistantWithVoice fmt userQuery contextData languageCode1 =
     askJalAssistantWithVoice fmt userQuery contextData languageCode2 \<and>
   (\<exists>response.
      askJalAssistantWithVoice fmt userQuery contextData languageCode1 = Fulfilled response \<and>
      reply_text response = getOfflineAssistantReply fmt userQuery contextData \<and>
      audioBase64 response = None \<and> audioMimeType response = None) \<and>
   askJalAssistant fmt userQuery contextData languageCode1 =
     Fulfilled (getOfflineAssistantReply fmt userQuery contextData)"
  by (simp add: askJalAssistant_def askJalAssistantWithVoice_def)

subsection \<open>The simulated report\<close>

lemma binadeBelow_upper:
  "x < 2 powi (int k - 1021) \<Longrightarrow> x < 2 powi (binadeBelow k x + 1)"
proof (induction k)
  case 0
  then show ?case by simp
next
  case (Suc k)
  show ?case
  proof (cases "2 powi (int (Suc k) - 1022) \<le> x")
    case True
    with Suc.prems show ?thesis by (simp add: algebra_simps)
  next
    case False
    then have "x < 2 powi (int k - 1021)" by (simp add: algebra_simps)
    with Suc.IH False show ?thesis by simp
  qed
qed

lemma binadeBelow_lower:
  "binadeBelow k x = - 1022 \<or> 2 powi (binadeBelow k x) \<le> x"
  by (induction k) auto

lemma binadeBelow_range: "- 1022 \<le> binadeBelow k x \<and> binadeBelow k x \<le> int k - 1022"
  by (induction k) auto

lemma two_powi_le: "a \<le> b \<Longrightarrow> (2::real) powi a \<le> 2 powi b"
  by (rule power_int_increasing) simp_all

lemma two_powi_less: "a < b \<Longrightarrow> (2::real) powi a < 2 powi b"
  by (rule power_int_strict_increasing) simp_all

lemma two_powi_less_iff: "(2::real) powi a < 2 powi b \<longleftrightarrow> a < b"
proof
  assume l: "(2::real) powi a < 2 powi b"
  show "a < b"
  proof (rule ccontr)
    assume "\<not> a < b"
    then have "(2::real) powi b \<le> 2 powi a" by (simp add: two_powi_le)
    with l show False by simp
  qed
qed (rule two_powi_less)

lemma binade_eq:
  assumes "2 powi e \<le> x" and "x < 2 powi (e + 1)" and "- 1022 \<le> e" and "e \<le> 1023"
  shows "binade x = e"
proof -
  let ?b = "binade x"
  from assms(4) have "(2::real) powi (e + 1) \<le> 2 powi (int 2045 - 1021)"
    by (intro two_powi_le) simp
  with assms(2) have "x < 2 powi (int 2045 - 1021)" by simp
  then have u: "x < 2 powi (?b + 1)" unfolding binade_def by (rule binadeBelow_upper)
  with assms(1) have "(2::real) powi e < 2 powi (?b + 1)" by simp
  then have 1: "e \<le> ?b" by (simp add: two_powi_less_iff)
  have "?b = - 1022 \<or> 2 powi ?b \<le> x" unfolding binade_def by (rule binadeBelow_lower)
  then have 2: "?b \<le> e"
  proof
    assume "?b = - 1022" with assms(3) show ?thesis by simp
  next
    assume "2 powi ?b \<le> x"
    with assms(2) have "(2::real) powi ?b < 2 powi (e + 1)" by simp
    then show ?thesis by (simp add: two_powi_less_iff)
  qed
  from 1 2 show ?thesis by simp
qed


lemma roundHalfEven_of_int: "roundHalfEven (of_int m) = m"
  by (simp add: roundHalfEven_def Let_def)



lemma round64_pos:
  "0 < x \<Longrightarrow>
     round64 x = 2 powi (binade x - 52) * of_int (roundHalfEven (x / 2 powi (binade x - 52)))"
  by (simp add: round64_def Let_def)


lemma round64_at:
  assumes "2 powi e \<le> x" and "x < 2 powi (e + 1)" and "- 1022 \<le> e" and "e \<le> 1023"
  shows "round64 x = 2 powi (e - 52) * of_int (roundHalfEven (x / 2 powi (e - 52)))"
proof -
  have "(0::real) < 2 powi e" by simp
  with assms(1) have "0 < x" by linarith
  then show ?thesis by (simp add: round64_pos binade_eq [OF assms])
qed







lemma round64_eval:
  assumes "2 powi e \<le> x" and "x < 2 powi (e + 1)" and "- 1022 \<le> e" and "e \<le> 1023"
    and "2 powi (e - 52) * of_int (roundHalfEven (x / 2 powi (e - 52))) = y"
  shows "round64 x = y"
  using round64_at [OF assms(1-4)] assms(5) by simp

lemma isDoubleI: "\<bar>x\<bar> < 2 ^ 1024 \<Longrightarrow> round64 x = x \<Longrightarrow> isDouble x"
  by (simp add: isDouble_def)

lemma half_isDouble: "isDouble (1 / 2)"
proof (rule isDoubleI)
  show "\<bar>1 / 2 :: real\<bar> < 2 ^ 1024" by simp
  show "round64 (1 / 2) = 1 / 2"
    by (rule round64_eval [where e = "- 1"])
       (simp_all add: power_int_minus roundHalfEven_def Let_def)
qed

lemma round64_20: "round64 20 = 20"
  by (rule round64_eval [where e = 4])
     (simp_all add: power_int_minus roundHalfEven_def Let_def)












text \<open>
  Claim C10. When the lower-cased report type matches a water keyword and a disease
  keyword, the water bucket wins: the verdict, the phrase of the summary, and the
  names, values, units and statuses of the four key metrics are the water ones.
\<close>

theorem getMockAdvancedReport_water_first:
  assumes "str_includes (toLowerCase reportType) ''water''
             \<or> str_includes (toLowerCase reportType) ''groundwater''"
    and "str_includes (toLowerCase reportType) ''disease''
             \<or> str_includes (toLowerCase reportType) ''hospital''"
  shows "verdict (getMockAdvancedReport rnd reportType location) =
           (if 75 < score (getMockAdvancedReport rnd reportType location)
            then ''Safe for Consumption'' else ''Requires Filtration'') \<and>
         summary (getMockAdvancedReport rnd reportType location) =
           ''This is a simulated report for '' @ city location
             @ '' because the AI service is currently unreachable (likely Free Tier rate limit). Data suggests ''
             @ (if 75 < score (getMockAdvancedReport rnd reportType location)
                then ''water parameters are within acceptable limits.''
                else ''turbidity levels are slightly high, boiling advised.'') \<and>
         key_metrics (getMockAdvancedReport rnd reportType location) =
           [\<lparr>metric_name = ''pH Level'', metric_value = ''7.4'', metric_unit = [],
              metric_status = ''Neutral''\<rparr>,
            \<lparr>metric_name = ''Turbidity'', metric_value = ''12'', metric_unit = ''NTU'',
              metric_status = ''Bad''\<rparr>,
            \<lparr>metric_name = ''Dissolved Oxygen'', metric_value = ''6.2'', metric_unit = ''mg/L'',
              metric_status = ''Good''\<rparr>,
            \<lparr>metric_name = ''E. Coli'', metric_value = ''4'', metric_unit = ''CFU'',
              metric_status = ''Good''\<rparr>]"
  using assms(1) by (simp add: getMockAdvancedReport_def Let_def)

lemma lower_waterborne: "toLowerCase ''Waterborne Disease'' = ''waterborne disease''"
  by code_simp

theorem getMockAdvancedReport_water_first_witness:
  "str_includes (toLowerCase ''Waterborne Disease'') ''water'' \<and>
   str_includes (toLowerCase ''Waterborne Disease'') ''disease'' \<and>
   verdict (getMockAdvancedReport (1 / 2) ''Waterborne Disease'' cityX) = ''Requires Filtration'' \<and>
   summary (getMockAdvancedReport (1 / 2) ''Waterborne Disease'' cityX) =
     ''This is a simulated report for X because the AI service is currently unreachable (likely Free Tier rate limit). Data suggests turbidity levels are slightly high, boiling advised.'' \<and>
   map metric_name (key_metrics (getMockAdvancedReport (1 / 2) ''Waterborne Disease'' cityX)) =
     [''pH Level'', ''Turbidity'', ''Dissolved Oxygen'', ''E. Coli'']"
proof -
  have a: "str_includes (toLowerCase ''Waterborne Disease'') ''water''"
    by (simp add: lower_waterborne)
  have b: "str_includes (toLowerCase ''Waterborne Disease'') ''disease''"
    by (simp add: lower_waterborne)
  have s: "score (getMockAdvancedReport (1 / 2) ''Waterborne Disease'' cityX) = 70"
    by (simp add: getMockAdvancedReport_def Let_def round64_20)
  have c: "city cityX = ''X''"
    by (simp add: cityX_def)
  from getMockAdvancedReport_water_first [of "''Waterborne Disease''" "1 / 2" cityX] a b
  show ?thesis by (simp add: s c)
qed

subsection \<open>What a call leaves unchanged\<close>

lemma those_eq_Some: "those os = Some ys \<longleftrightarrow> os = map Some ys"
proof (induction os arbitrary: ys)
  case Nil
  then show ?case by auto
next
  case (Cons o' os)
  then show ?case by (cases o') (auto split: option.splits)
qed

lemma lookup_append: "lookup h a = Some v \<Longrightarrow> lookup (h @ ys) a = Some v"
  by (auto simp: lookup_def nth_append split: if_splits)

lemma lookup_fresh: "lookup (h @ [v]) (length h) = Some v"
  by (simp add: lookup_def)

lemma readState_iff: "readState h a = Some s \<longleftrightarrow> lookup h a = Some (StateRec s)"
  by (auto simp: readState_def split: option.splits obj.splits)

lemma readReport_iff: "readReport h a = Some r \<longleftrightarrow> lookup h a = Some (ReportRec r)"
  by (auto simp: readReport_def split: option.splits obj.splits)

lemma readArray_iff: "readArray h a = Some refs \<longleftrightarrow> lookup h a = Some (RefArray refs)"
  by (auto simp: readArray_def split: option.splits obj.splits)

lemma readState_append: "readState h a = Some s \<Longrightarrow> readState (h @ ys) a = Some s"
  by (simp add: readState_iff lookup_append)

lemma readReport_append: "readReport h a = Some r \<Longrightarrow> readReport (h @ ys) a = Some r"
  by (simp add: readReport_iff lookup_append)

lemma readArray_append: "readArray h a = Some refs \<Longrightarrow> readArray (h @ ys) a = Some refs"
  by (simp add: readArray_iff lookup_append)

lemma readArray_fresh: "readArray (h @ [RefArray refs]) (length h) = Some refs"
  by (simp add: readArray_iff lookup_fresh)

lemma map_readState_append:
  "map (readState h) refs = map Some sts \<Longrightarrow> map (readState (h @ ys)) refs = map Some sts"
proof (induction refs arbitrary: sts)
  case Nil
  then show ?case by simp
next
  case (Cons r refs)
  then obtain s sts' where "sts = s # sts'" by (cases sts) auto
  with Cons show ?case by (auto simp: readState_append)
qed

lemma map_readReport_append:
  "map (readReport h) refs = map Some rs \<Longrightarrow> map (readReport (h @ ys)) refs = map Some rs"
proof (induction refs arbitrary: rs)
  case Nil
  then show ?case by simp
next
  case (Cons r refs)
  then obtain x rs' where "rs = x # rs'" by (cases rs) auto
  with Cons show ?case by (auto simp: readReport_append)
qed

lemma statesAt_iff:
  "statesAt h a = Some sts \<longleftrightarrow>
     (\<exists>refs. readArray h a = Some refs \<and> map (readState h) refs = map Some sts)"
  by (cases "readArray h a") (auto simp: statesAt_def those_eq_Some)

lemma reportsAt_iff:
  "reportsAt h a = Some rs \<longleftrightarrow>
     (\<exists>refs. readArray h a = Some refs \<and> map (readReport h) refs = map Some rs)"
  by (cases "readArray h a") (auto simp: reportsAt_def those_eq_Some)

lemma statesAt_append: "statesAt h a = Some sts \<Longrightarrow> statesAt (h @ ys) a = Some sts"
  by (auto simp: statesAt_iff dest: readArray_append map_readState_append)

lemma reportsAt_append: "reportsAt h a = Some rs \<Longrightarrow> reportsAt (h @ ys) a = Some rs"
  by (auto simp: reportsAt_iff dest: readArray_append map_readReport_append)

lemma map_snd_insertBy:
  "map snd (insertBy (\<lambda>p q. cmp (snd p) (snd q)) x ps) = insertBy cmp (snd x) (map snd ps)"
  by (induction ps) auto

lemma map_snd_sortBy:
  "map snd (sortBy (\<lambda>p q. cmp (snd p) (snd q)) ps) = sortBy cmp (map snd ps)"
  by (induction ps) (auto simp: map_snd_insertBy)

lemma zip_reads:
  assumes "map f refs = map Some sts" and "(r, s) \<in> set (zip refs sts)"
  shows "f r = Some s"
proof -
  from assms(2) obtain i where i: "i < length refs" "i < length sts" "refs ! i = r" "sts ! i = s"
    by (auto simp: in_set_zip)
  from assms(1) have "map f refs ! i = map Some sts ! i" by simp
  with i show ?thesis by simp
qed

lemma getTopStateSummary_st_result:
  assumes "statesAt h sa = Some sts"
  shows "\<exists>ys. getTopStateSummary_st fmt sa h = Some (getTopStateSummary fmt sts, h @ ys)"
proof -
  from assms obtain refs where ra: "readArray h sa = Some refs"
    and rd: "map (readState h) refs = map Some sts"
    by (auto simp: statesAt_iff)
  from rd have len: "length refs = length sts" by (rule map_eq_imp_length_eq)
  show ?thesis
  proof (cases "sts = []")
    case True
    with len ra have "getTopStateSummary_st fmt sa h = Some (getTopStateSummary fmt sts, h @ [])"
      by (simp add: getTopStateSummary_st_def getTopStateSummary_def)
    then show ?thesis by blast
  next
    case False
    let ?cmp = "\<lambda>p q. byBurden (snd p) (snd q)"
    let ?sp = "sortBy ?cmp (zip refs sts)"
    let ?h1 = "h @ [RefArray refs]"
    let ?h2 = "h @ [RefArray (map fst ?sp)]"
    from False len have ne: "zip refs sts \<noteq> []" by (cases refs; cases sts) auto
    then have spne: "?sp \<noteq> []" by (rule sortBy_nonempty)
    have sp: "spread sa h = Some (length h, ?h1)"
      using ra by (simp add: spread_def)
    have rd1: "those (map (readState ?h1) refs) = Some sts"
      using rd by (simp add: those_eq_Some map_readState_append)
    have so: "sortStates byBurden (length h) ?h1 = Some (length h, ?h2)"
      using rd1 by (simp add: sortStates_def readArray_fresh)
    have ra2: "readArray ?h2 (length h) = Some (map fst ?sp)"
      by (rule readArray_fresh)
    have fe: "firstEntry (map fst ?sp) = Some (fst (hd ?sp))"
      using spne by (cases ?sp) (auto simp: firstEntry_def)
    have "hd ?sp \<in> set ?sp" using spne by simp
    then have "hd ?sp \<in> set (zip refs sts)" by (simp add: set_sortBy)
    then have "(fst (hd ?sp), snd (hd ?sp)) \<in> set (zip refs sts)" by simp
    with rd have "readState h (fst (hd ?sp)) = Some (snd (hd ?sp))" by (rule zip_reads)
    then have rt: "readState ?h2 (fst (hd ?sp)) = Some (snd (hd ?sp))" by (rule readState_append)
    have "snd (hd ?sp) = hd (map snd ?sp)" using spne by (simp add: hd_map)
    also have "\<dots> = hd (sortBy byBurden (map snd (zip refs sts)))" by (simp add: map_snd_sortBy)
    also have "\<dots> = hd (sortBy byBurden sts)" using len by simp
    finally have tp: "snd (hd ?sp) = hd (sortBy byBurden sts)" .
    from False len have nz: "length refs \<noteq> 0" by simp
    have "getTopStateSummary_st fmt sa h = Some (burdenSentence fmt (hd (sortBy byBurden sts)), ?h2)"
      using ra nz sp so ra2 fe rt tp by (simp add: getTopStateSummary_st_def)
    moreover have "getTopStateSummary fmt sts = burdenSentence fmt (hd (sortBy byBurden sts))"
      using False by (simp add: getTopStateSummary_def)
    ultimately show ?thesis by auto
  qed
qed

lemma getRecentWaterSummary_st_result:
  assumes "reportsAt h ra = Some rs"
  shows "getRecentWaterSummary_st fmt ra h = Some (getRecentWaterSummary fmt rs, h)"
proof -
  from assms obtain refs where a: "readArray h ra = Some refs"
    and rd: "map (readReport h) refs = map Some rs"
    by (auto simp: reportsAt_iff)
  from rd have len: "length refs = length rs" by (rule map_eq_imp_length_eq)
  show ?thesis
  proof (cases "rs = []")
    case True
    with len a show ?thesis
      by (simp add: getRecentWaterSummary_st_def getRecentWaterSummary_def)
  next
    case False
    with len have i: "length refs - 1 < length refs" by (cases refs) auto
    from rd have "map (readReport h) refs ! (length refs - 1) = map Some rs ! (length refs - 1)"
      by simp
    with i len have "readReport h (refs ! (length refs - 1)) = Some (rs ! (length rs - 1))"
      by simp
    moreover from False len have "refs \<noteq> []" by auto
    ultimately show ?thesis
      using False len a by (simp add: getRecentWaterSummary_st_def getRecentWaterSummary_def)
  qed
qed

lemma getOfflineAssistantReply_st_result:
  assumes st: "statesAt h (states_ref c) = Some sts"
    and rp: "reportsAt h (reports_ref c) = Some rs"
  shows "\<exists>ys. getOfflineAssistantReply_st fmt userQuery c h =
           Some (getOfflineAssistantReply fmt userQuery \<lparr>states = sts, reports = rs\<rparr>, h @ ys)"
proof -
  from getTopStateSummary_st_result [OF st] obtain ys
    where t: "getTopStateSummary_st fmt (states_ref c) h = Some (getTopStateSummary fmt sts, h @ ys)"
    by blast
  from rp have "reportsAt (h @ ys) (reports_ref c) = Some rs" by (rule reportsAt_append)
  then have w1: "getRecentWaterSummary_st fmt (reports_ref c) (h @ ys) =
      Some (getRecentWaterSummary fmt rs, h @ ys)"
    by (rule getRecentWaterSummary_st_result)
  from rp have w0: "getRecentWaterSummary_st fmt (reports_ref c) h =
      Some (getRecentWaterSummary fmt rs, h)"
    by (rule getRecentWaterSummary_st_result)
  let ?q = "toLowerCase userQuery"
  consider (ph) "str_includes ?q ''ph'' \<or> str_includes ?q ''safe range''"
    | (both) "\<not> (str_includes ?q ''ph'' \<or> str_includes ?q ''safe range'')"
        "str_includes ?q ''state'' \<or> str_includes ?q ''disease'' \<or> str_includes ?q ''cases''"
    | (water) "\<not> (str_includes ?q ''ph'' \<or> str_includes ?q ''safe range'')"
        "\<not> (str_includes ?q ''state'' \<or> str_includes ?q ''disease'' \<or> str_includes ?q ''cases'')"
        "str_includes ?q ''water'' \<or> str_includes ?q ''quality'' \<or> str_includes ?q ''turbidity''"
    | (none) "\<not> (str_includes ?q ''ph'' \<or> str_includes ?q ''safe range'')"
        "\<not> (str_includes ?q ''state'' \<or> str_includes ?q ''disease'' \<or> str_includes ?q ''cases'')"
        "\<not> (str_includes ?q ''water'' \<or> str_includes ?q ''quality'' \<or> str_includes ?q ''turbidity'')"
    by blast
  then show ?thesis
  proof cases
    case ph
    then have "getOfflineAssistantReply_st fmt userQuery c h =
        Some (getOfflineAssistantReply fmt userQuery \<lparr>states = sts, reports = rs\<rparr>, h @ [])"
      by (simp add: getOfflineAssistantReply_st_def getOfflineAssistantReply_def Let_def)
    then show ?thesis by blast
  next
    case both
    then have "getOfflineAssistantReply_st fmt userQuery c h =
        Some (getOfflineAssistantReply fmt userQuery \<lparr>states = sts, reports = rs\<rparr>, h @ ys)"
      using t w1
      by (simp add: getOfflineAssistantReply_st_def getOfflineAssistantReply_def Let_def)
    then show ?thesis by blast
  next
    case water
    then have "getOfflineAssistantReply_st fmt userQuery c h =
        Some (getOfflineAssistantReply fmt userQuery \<lparr>states = sts, reports = rs\<rparr>, h @ [])"
      using w0
      by (simp add: getOfflineAssistantReply_st_def getOfflineAssistantReply_def Let_def)
    then show ?thesis by blast
  next
    case none
    then have "getOfflineAssistantReply_st fmt userQuery c h =
        Some (getOfflineAssistantReply fmt userQuery \<lparr>states = sts, reports = rs\<rparr>, h @ ys)"
      using t w1
      by (simp add: getOfflineAssistantReply_st_def getOfflineAssistantReply_def Let_def)
    then show ?thesis by blast
  qed
qed

lemma askJalAssistantWithVoice_st_result:
  assumes "statesAt h (states_ref c) = Some sts" and "reportsAt h (reports_ref c) = Some rs"
  shows "\<exists>ys. askJalAssistantWithVoice_st fmt userQuery c languageCode h =
           Some (askJalAssistantWithVoice fmt userQuery \<lparr>states = sts, reports = rs\<rparr> languageCode,
                 h @ ys)"
proof -
  from getOfflineAssistantReply_st_result [OF assms, of fmt userQuery] obtain ys
    where "getOfflineAssistantReply_st fmt userQuery c h =
           Some (getOfflineAssistantReply fmt userQuery \<lparr>states = sts, reports = rs\<rparr>, h @ ys)"
    by blast
  then have "askJalAssistantWithVoice_st fmt userQuery c languageCode h =
           Some (askJalAssistantWithVoice fmt userQuery \<lparr>states = sts, reports = rs\<rparr> languageCode,
                 h @ ys)"
    by (simp add: askJalAssistantWithVoice_st_def askJalAssistantWithVoice_def)
  then show ?thesis by blast
qed

lemma askJalAssistant_st_result:
  assumes "statesAt h (states_ref c) = Some sts" and "reportsAt h (reports_ref c) = Some rs"
  shows "\<exists>ys. askJalAssistant_st fmt userQuery c languageCode h =
           Some (askJalAssistant fmt userQuery \<lparr>states = sts, reports = rs\<rparr> languageCode, h @ ys)"
proof -
  from askJalAssistantWithVoice_st_result [OF assms, of fmt userQuery languageCode] obtain ys
    where "askJalAssistantWithVoice_st fmt userQuery c languageCode h =
           Some (askJalAssistantWithVoice fmt userQuery \<lparr>states = sts, reports = rs\<rparr> languageCode,
                 h @ ys)"
    by blast
  then have "askJalAssistant_st fmt userQuery c languageCode h =
           Some (askJalAssistant fmt userQuery \<lparr>states = sts, reports = rs\<rparr> languageCode, h @ ys)"
    by (simp add: askJalAssistant_st_def askJalAssistant_def)
  then show ?thesis by blast
qed

lemma perform_appends:
  assumes "wellTyped c h"
  shows "\<exists>out ys. perform fmt c h = Some (out, h @ ys)"
proof (cases c)
  case (GenerateHealthReport a)
  with assms obtain s where "readState h a = Some s" by auto
  with GenerateHealthReport have "perform fmt c h = Some (TextPromise (generateHealthReport fmt s), h @ [])"
    by (simp add: generateHealthReport_st_def)
  then show ?thesis by blast
next
  case (SuggestPreventiveMeasures d)
  then have "perform fmt c h = Some (ListPromise (suggestPreventiveMeasures d), h @ [])" by simp
  then show ?thesis by blast
next
  case (AskJalAssistant q cx l)
  with assms obtain sts rs where
    "statesAt h (states_ref cx) = Some sts" "reportsAt h (reports_ref cx) = Some rs" by auto
  from askJalAssistant_st_result [OF this, of fmt q l] AskJalAssistant
  show ?thesis by auto
next
  case (AskJalAssistantWithVoice q cx l)
  with assms obtain sts rs where
    "statesAt h (states_ref cx) = Some sts" "reportsAt h (reports_ref cx) = Some rs" by auto
  from askJalAssistantWithVoice_st_result [OF this, of fmt q l] AskJalAssistantWithVoice
  show ?thesis by auto
next
  case (GetAdvancedReport r t l)
  then have "\<exists>out. perform fmt c h = Some (out, h @ [])"
    by (simp split: prod.splits)
  then show ?thesis by blast
qed

text \<open>
  Claim C9. No call of an exported function changes an object of the caller: when the
  inputs have the kinds the parameter types ask for, the call returns, and in the store
  it leaves every object that existed before is the same, so the states array, the
  reports array and the records in them read as before. In particular
  \<^verbatim>\<open>getTopStateSummary\<close> sorts a copy: the array it was given holds the same records in
  the same order afterwards.
\<close>

theorem perform_leaves_inputs:
  "(wellTyped c h \<longrightarrow>
      (\<exists>out h'. perform fmt c h = Some (out, h') \<and>
         take (length h) h' = h \<and>
         (\<forall>a sts. statesAt h a = Some sts \<longrightarrow> statesAt h' a = Some sts) \<and>
         (\<forall>a rs. reportsAt h a = Some rs \<longrightarrow> reportsAt h' a = Some rs) \<and>
         (\<forall>a s. readState h a = Some s \<longrightarrow> readState h' a = Some s) \<and>
         (\<forall>a r. readReport h a = Some r \<longrightarrow> readReport h' a = Some r))) \<and>
   (statesAt h sa = Some sts \<longrightarrow>
      (\<exists>h'. getTopStateSummary_st fmt sa h = Some (getTopStateSummary fmt sts, h') \<and>
            take (length h) h' = h \<and> statesAt h' sa = Some sts))"
proof (intro conjI impI)
  assume "wellTyped c h"
  from perform_appends [OF this, of fmt] obtain out ys
    where "perform fmt c h = Some (out, h @ ys)" by blast
  then show "\<exists>out h'. perform fmt c h = Some (out, h') \<and>
           take (length h) h' = h \<and>
           (\<forall>a sts. statesAt h a = Some sts \<longrightarrow> statesAt h' a = Some sts) \<and>
           (\<forall>a rs. reportsAt h a = Some rs \<longrightarrow> reportsAt h' a = Some rs) \<and>
           (\<forall>a s. readState h a = Some s \<longrightarrow> readState h' a = Some s) \<and>
           (\<forall>a r. readReport h a = Some r \<longrightarrow> readReport h' a = Some r)"
    by (auto simp: statesAt_append reportsAt_append readState_append readReport_append)
next
  assume s: "statesAt h sa = Some sts"
  from getTopStateSummary_st_result [OF s] obtain ys
    where "getTopStateSummary_st fmt sa h = Some (getTopStateSummary fmt sts, h @ ys)" by blast
  with s show "\<exists>h'. getTopStateSummary_st fmt sa h = Some (getTopStateSummary fmt sts, h') \<and>
                 take (length h) h' = h \<and> statesAt h' sa = Some sts"
    by (auto simp: statesAt_append)
qed

lemma sample_statesAt: "statesAt sampleStore 5 = Some threeStates"
  by code_simp

lemma sample_reportsAt: "reportsAt sampleStore 6 = Some [alkalineReport, safeReport]"
  by code_simp

lemma sample_top:
  "getTopStateSummary_st wholeNumber 5 sampleStore =
     Some (''Bihar currently has the highest reported disease burden with 30 affected cases.'',
           sampleStore @ [RefArray [1, 2, 0]])"
  by code_simp

text \<open>Had the array been sorted where it is, the caller would see the new order.\<close>

lemma sample_sort_in_place:
  "sortStates byBurden 5 sampleStore = Some (5, sampleStore[5 := RefArray [1, 2, 0]]) \<and>
   statesAt (sampleStore[5 := RefArray [1, 2, 0]]) 5 \<noteq> statesAt sampleStore 5"
  by code_simp

lemma sample_perform:
  "perform wholeNumber (AskJalAssistant ''Which disease is spreading?'' sampleRefs ''en-IN'')
       sampleStore =
     Some (TextPromise (Fulfilled ''Bihar currently has the highest reported disease burden with 30 affected cases. Latest site Well 3 (well) shows pH 7 and turbidity 2 NTU, which within safe range.''),
           sampleStore @ [RefArray [1, 2, 0]])"
  by code_simp

theorem perform_leaves_inputs_witness:
  "wellTyped (AskJalAssistant ''Which disease is spreading?'' sampleRefs ''en-IN'') sampleStore \<and>
   statesAt sampleStore 5 = Some threeStates \<and>
   perform wholeNumber (AskJalAssistant ''Which disease is spreading?'' sampleRefs ''en-IN'')
       sampleStore =
     Some (TextPromise (Fulfilled ''Bihar currently has the highest reported disease burden with 30 affected cases. Latest site Well 3 (well) shows pH 7 and turbidity 2 NTU, which within safe range.''),
           sampleStore @ [RefArray [1, 2, 0]]) \<and>
   take (length sampleStore) (sampleStore @ [RefArray [1, 2, 0]]) = sampleStore \<and>
   statesAt (sampleStore @ [RefArray [1, 2, 0]]) 5 = Some threeStates \<and>
   reportsAt (sampleStore @ [RefArray [1, 2, 0]]) 6 = Some [alkalineReport, safeReport] \<and>
   getTopStateSummary_st wholeNumber 5 sampleStore =
     Some (getTopStateSummary wholeNumber threeStates, sampleStore @ [RefArray [1, 2, 0]])"
proof -
  let ?c = "AskJalAssistant ''Which disease is spreading?'' sampleRefs ''en-IN''"
  have wt: "wellTyped ?c sampleStore"
    by (simp add: sampleRefs_def sample_statesAt sample_reportsAt)
  note th = perform_leaves_inputs
    [where c = ?c and h = sampleStore and fmt = wholeNumber and sa = 5 and sts = threeStates]
  from th wt obtain out h' where p: "perform wholeNumber ?c sampleStore = Some (out, h')"
    and f: "take (length sampleStore) h' = sampleStore"
    and s: "\<forall>a sts. statesAt sampleStore a = Some sts \<longrightarrow> statesAt h' a = Some sts"
    and r: "\<forall>a rs. reportsAt sampleStore a = Some rs \<longrightarrow> reportsAt h' a = Some rs"
    by blast
  from p sample_perform have h': "h' = sampleStore @ [RefArray [1, 2, 0]]" by simp
  from s sample_statesAt have s5: "statesAt h' 5 = Some threeStates" by blast
  from r sample_reportsAt have r6: "reportsAt h' 6 = Some [alkalineReport, safeReport]" by blast
  from th sample_statesAt obtain h'' where
    t: "getTopStateSummary_st wholeNumber 5 sampleStore = Some (getTopStateSummary wholeNumber threeStates, h'')"
    by blast
  with sample_top have "h'' = sampleStore @ [RefArray [1, 2, 0]]" by simp
  with t have t5: "getTopStateSummary_st wholeNumber 5 sampleStore =
     Some (getTopStateSummary wholeNumber threeStates, sampleStore @ [RefArray [1, 2, 0]])" by simp
  from wt sample_statesAt sample_perform f s5 r6 t5 show ?thesis
    unfolding h' by blast
qed

end
